theory Spec2Isabelle
  imports Main "HOL-Library.AList"
begin

section \<open>Search extractor: values, errors and the host environment\<close>

text \<open>
  The development embeds \<^verbatim>\<open>search-extractor.js\<close>: the selector evaluator
  (\<^verbatim>\<open>runSelector\<close>), the transform chain (\<^verbatim>\<open>runTransforms\<close>), the first-match
  search (\<^verbatim>\<open>findFirstMatch\<close>), the extraction itself (\<^verbatim>\<open>extractMessages\<close>) and
  the job entry point (\<^verbatim>\<open>runJob\<close>).

  A JavaScript object is an association list holding its entries in the order of
  \<^verbatim>\<open>Object.entries\<close>; \<^verbatim>\<open>o[k]\<close> is \<open>map_of o k\<close> (\<open>None\<close> for \<^verbatim>\<open>undefined\<close>)
  and \<^verbatim>\<open>o[k] = v\<close> is \<open>AList.update k v o\<close>. A string is a list of code units,
  of which the 8-bit ones are representable. Selectors are taken to be
  syntactically valid, so that the DOM queries return without raising.
\<close>

type_synonym 'a obj = "(string \<times> 'a) list"

datatype val = Undefined | Null | Str string | Num int

datatype error =
    BadPatternError string
  | UnsupportedTransformError string
  | TypeError string


text \<open>
  A parsed document, seen through the operations the extractor calls. Elements are
  handles of type \<open>'e\<close>. \<open>hrefProperty\<close> is the DOM-resolved property
  \<^verbatim>\<open>elem.href\<close>, which depends on the parser's own base.
\<close>

record 'e document =
  docQuerySelector :: "string \<Rightarrow> 'e option"
  docQuerySelectorAll :: "string \<Rightarrow> 'e list option"
  querySelector :: "'e \<Rightarrow> string \<Rightarrow> 'e option"
  textContent :: "'e \<Rightarrow> string"
  getAttribute :: "'e \<Rightarrow> string \<Rightarrow> string option"
  hasAttribute :: "'e \<Rightarrow> string \<Rightarrow> bool"
  hrefProperty :: "'e \<Rightarrow> string"

text \<open>
  The host functions the extractor relies on: \<open>resolveURL raw base\<close> is
  \<^verbatim>\<open>new URL(raw, base).href\<close> (\<open>None\<close> when the constructor throws),
  \<open>removeElem\<close> is \<^verbatim>\<open>elem.remove()\<close>, \<open>registry\<close> is the table behind
  \<^verbatim>\<open>lookupBuiltinTransform\<close>, \<open>getSafeCountryCode\<close> belongs to the sanitizer and
  \<open>randomDraw k\<close> is the value of \<^verbatim>\<open>Math.floor(random() * 10000000)\<close> at the
  \<open>k\<close>-th draw.
\<close>

record 'e host =
  resolveURL :: "string \<Rightarrow> string \<Rightarrow> string option"
  removeElem :: "'e document \<Rightarrow> 'e \<Rightarrow> 'e document"
  registry :: "string \<Rightarrow> (val \<Rightarrow> val list \<Rightarrow> val) option"
  getSafeCountryCode :: "string"
  randomDraw :: "nat \<Rightarrow> int"

section \<open>Patterns\<close>

datatype tstep = NotAnArray | Step string "val list"

datatype tsteps = NotAList | StepList "tstep list"

record selector_rule =
  select :: "string option"
  attr :: string
  transform :: "tsteps option"

record selector_def = selector_rule +
  firstMatch :: "selector_rule list option"

record input_group =
  first :: "selector_def obj option"
  all :: "selector_def obj option"

record prune_rule =
  prune_first :: "string option"
  prune_all :: "string option"

record field =
  key :: string
  source :: "string option"
  requiredKeys :: "string list option"
  optional :: bool

record schema =
  schemaFields :: "field list"
  omitIfExistsAny :: "string list option"
  deduplicateBy :: "val option"

record rule =
  prune :: "prune_rule list"
  input :: "input_group obj"
  "output" :: "schema obj"

section \<open>Selector evaluator and transform chain\<close>

text \<open>Truthiness of an optional string: absent and the empty string are falsy.\<close>

fun truthy :: "string option \<Rightarrow> bool" where
  "truthy None = False"
| "truthy (Some s) = (s \<noteq> [])"

text \<open>\<^verbatim>\<open>x ?? null\<close>\<close>

fun orNull :: "val \<Rightarrow> val" where
  "orNull Undefined = Null"
| "orNull v = v"

definition runSelector ::
  "'e host \<Rightarrow> 'e document \<Rightarrow> 'e \<Rightarrow> string option \<Rightarrow> string \<Rightarrow> string \<Rightarrow> error + val" where
  "runSelector h d item selector a baseURI =
     (case (if truthy selector then querySelector d item (the selector) else Some item) of
        None \<Rightarrow> Inr Null
      | Some elem \<Rightarrow>
          if a = ''textContent'' then Inr (Str (textContent d elem))
          else if a = ''href'' then
            (let rawLink = getAttribute d elem ''href'' in
             if truthy rawLink then
               (case resolveURL h (the rawLink) baseURI of
                  None \<Rightarrow> Inl (TypeError ''Invalid URL'')
                | Some u \<Rightarrow> Inr (Str u))
             else Inr Null)
          else if hasAttribute d elem a then
            (case getAttribute d elem a of None \<Rightarrow> Inr Null | Some s \<Rightarrow> Inr (Str s))
          else Inr Null)"

text \<open>
  Modelled from the spec: \<^verbatim>\<open>lookupBuiltinTransform\<close> lives in the module
  \<^verbatim>\<open>patterns\<close>, which is not part of the sources at hand. It looks the name up in the
  registry of pure transforms and raises a permanent error for an unknown name.
\<close>

definition lookupBuiltinTransform ::
  "'e host \<Rightarrow> string \<Rightarrow> error + (val \<Rightarrow> val list \<Rightarrow> val)" where
  "lookupBuiltinTransform h name =
     (case registry h name of
        None \<Rightarrow> Inl (UnsupportedTransformError name)
      | Some f \<Rightarrow> Inr f)"

fun runSteps :: "'e host \<Rightarrow> val \<Rightarrow> tstep list \<Rightarrow> error + val" where
  "runSteps h tmpValue [] = Inr (orNull tmpValue)"
| "runSteps h tmpValue (NotAnArray # steps) =
     Inl (BadPatternError ''Single transform definitions must be an array.'')"
| "runSteps h tmpValue (Step name args # steps) =
     (case lookupBuiltinTransform h name of
        Inl e \<Rightarrow> Inl e
      | Inr f \<Rightarrow> runSteps h (f tmpValue args) steps)"

text \<open>An absent \<^verbatim>\<open>transformSteps\<close> takes the default \<^verbatim>\<open>[]\<close>.\<close>

definition runTransforms :: "'e host \<Rightarrow> val \<Rightarrow> tsteps option \<Rightarrow> error + val" where
  "runTransforms h v transformSteps =
     (case (case transformSteps of None \<Rightarrow> StepList [] | Some t \<Rightarrow> t) of
        NotAList \<Rightarrow> Inl (BadPatternError ''Transform definitions must be an array (of arrays).'')
      | StepList steps \<Rightarrow>
          if v = Undefined \<or> v = Null then Inr Null
          else runSteps h v steps)"

fun firstMatchLoop ::
  "'e host \<Rightarrow> 'e document \<Rightarrow> 'e \<Rightarrow> string \<Rightarrow> selector_rule list \<Rightarrow> error + val" where
  "firstMatchLoop h d rootItem baseURI [] = Inr Null"
| "firstMatchLoop h d rootItem baseURI (r # rs) =
     (case runSelector h d rootItem (select r) (attr r) baseURI of
        Inl e \<Rightarrow> Inl e
      | Inr m \<Rightarrow>
          if orNull m \<noteq> Null then runTransforms h (orNull m) (transform r)
          else firstMatchLoop h d rootItem baseURI rs)"

definition findFirstMatch ::
  "'e host \<Rightarrow> 'e document \<Rightarrow> 'e \<Rightarrow> selector_def \<Rightarrow> string \<Rightarrow> error + val" where
  "findFirstMatch h d rootItem selectorDef baseURI =
     (case firstMatch selectorDef of
        Some rs \<Rightarrow> firstMatchLoop h d rootItem baseURI rs
      | None \<Rightarrow>
          (case runSelector h d rootItem (select selectorDef) (attr selectorDef) baseURI of
             Inl e \<Rightarrow> Inl e
           | Inr m \<Rightarrow> Inr (orNull m)))"

section \<open>Extraction\<close>

text \<open>
  The extraction map \<^verbatim>\<open>found\<close>: per input group, per field, either the single value
  of a \<^verbatim>\<open>first\<close> group or the array of an \<^verbatim>\<open>all\<close> group.
\<close>

datatype fval = Single val | Many "val list"

text \<open>
  A payload entry: a scalar, the positional object \<^verbatim>\<open>{ ...cleanedResults }\<close>, or an
  array taken over as it is.
\<close>

datatype pval = Scalar val | Entries "val obj obj" | Column "val list"

subsection \<open>Preprocessing\<close>

fun removeEach :: "'e host \<Rightarrow> 'e document \<Rightarrow> 'e list \<Rightarrow> 'e document" where
  "removeEach h d [] = d"
| "removeEach h d (elem # elems) = removeEach h (removeElem h d elem) elems"

fun runPrune :: "'e host \<Rightarrow> 'e document \<Rightarrow> prune_rule list \<Rightarrow> error + 'e document" where
  "runPrune h d [] = Inr d"
| "runPrune h d (r # rs) =
     (if truthy (prune_first r) then
        (case docQuerySelector d (the (prune_first r)) of
           None \<Rightarrow> runPrune h d rs
         | Some elem \<Rightarrow> runPrune h (removeElem h d elem) rs)
      else if truthy (prune_all r) then
        (case docQuerySelectorAll d (the (prune_all r)) of
           None \<Rightarrow> runPrune h d rs
         | Some elems \<Rightarrow> runPrune h (removeEach h d elems) rs)
      else Inl (BadPatternError ''Bad prune rule (expected first or all)''))"

subsection \<open>Rule evaluator\<close>

text \<open>The loop over \<^verbatim>\<open>Object.entries(selectorDef.first)\<close>.\<close>

fun evalFirstFields ::
  "'e host \<Rightarrow> 'e document \<Rightarrow> 'e \<Rightarrow> string \<Rightarrow> selector_def obj \<Rightarrow> fval obj \<Rightarrow> error + fval obj" where
  "evalFirstFields h d item baseURI [] sub = Inr sub"
| "evalFirstFields h d item baseURI ((k, def) # rest) sub =
     (case findFirstMatch h d item def baseURI of
        Inl e \<Rightarrow> Inl e
      | Inr v \<Rightarrow>
          (case runTransforms h v (transform def) of
             Inl e \<Rightarrow> Inl e
           | Inr w \<Rightarrow> evalFirstFields h d item baseURI rest (AList.update k (Single w) sub)))"

text \<open>The loop over \<^verbatim>\<open>rootItems\<close>, pushing onto \<^verbatim>\<open>found[selector][key]\<close>.\<close>

fun evalRootItems ::
  "'e host \<Rightarrow> 'e document \<Rightarrow> string \<Rightarrow> selector_def \<Rightarrow> 'e list \<Rightarrow> val list \<Rightarrow> error + val list" where
  "evalRootItems h d baseURI def [] arr = Inr arr"
| "evalRootItems h d baseURI def (rootItem # rootItems) arr =
     (case findFirstMatch h d rootItem def baseURI of
        Inl e \<Rightarrow> Inl e
      | Inr item \<Rightarrow>
          (case runTransforms h item (transform def) of
             Inl e \<Rightarrow> Inl e
           | Inr w \<Rightarrow> evalRootItems h d baseURI def rootItems (arr @ [w])))"

text \<open>The loop over \<^verbatim>\<open>Object.entries(selectorDef.all)\<close>.\<close>

fun evalAllFields ::
  "'e host \<Rightarrow> 'e document \<Rightarrow> 'e list \<Rightarrow> string \<Rightarrow> selector_def obj \<Rightarrow> fval obj \<Rightarrow> error + fval obj" where
  "evalAllFields h d rootItems baseURI [] sub = Inr sub"
| "evalAllFields h d rootItems baseURI ((k, def) # rest) sub =
     (case evalRootItems h d baseURI def rootItems [] of
        Inl e \<Rightarrow> Inl e
      | Inr arr \<Rightarrow> evalAllFields h d rootItems baseURI rest (AList.update k (Many arr) sub))"

text \<open>\<^verbatim>\<open>found[selector] || {}\<close>\<close>

definition orEmpty :: "'a obj option \<Rightarrow> 'a obj" where
  "orEmpty x = (case x of None \<Rightarrow> [] | Some sub \<Rightarrow> sub)"

text \<open>The loop over \<^verbatim>\<open>Object.entries(input)\<close>.\<close>

fun evalInput ::
  "'e host \<Rightarrow> 'e document \<Rightarrow> string \<Rightarrow> input_group obj \<Rightarrow> fval obj obj \<Rightarrow> error + fval obj obj" where
  "evalInput h d baseURI [] found = Inr found"
| "evalInput h d baseURI ((selector, selectorDef) # rest) found =
     (let sub = orEmpty (map_of found selector);
          found1 = AList.update selector sub found
      in case first selectorDef of
           Some fm \<Rightarrow>
             (case docQuerySelector d selector of
                None \<Rightarrow> evalInput h d baseURI rest found1
              | Some item \<Rightarrow>
                  (case evalFirstFields h d item baseURI fm sub of
                     Inl e \<Rightarrow> Inl e
                   | Inr sub' \<Rightarrow> evalInput h d baseURI rest (AList.update selector sub' found1)))
         | None \<Rightarrow>
             (case all selectorDef of
                Some fm \<Rightarrow>
                  (case docQuerySelectorAll d selector of
                     None \<Rightarrow> evalInput h d baseURI rest found1
                   | Some rootItems \<Rightarrow>
                       (case evalAllFields h d rootItems baseURI fm sub of
                          Inl e \<Rightarrow> Inl e
                        | Inr sub' \<Rightarrow> evalInput h d baseURI rest (AList.update selector sub' found1)))
              | None \<Rightarrow> Inl (BadPatternError ''Bad selector (expected first or all)'')))"

subsection \<open>Message assembler\<close>

text \<open>
  The context \<^verbatim>\<open>{ q: query ?? null, qurl: doublefetchRequest.url, ctry }\<close>, read at a
  key; any other key is \<^verbatim>\<open>undefined\<close>.
\<close>

definition contextLookup :: "'e host \<Rightarrow> val \<Rightarrow> string \<Rightarrow> string \<Rightarrow> val" where
  "contextLookup h query url k =
     (if k = ''q'' then orNull query
      else if k = ''qurl'' then Str url
      else if k = ''ctry'' then Str (getSafeCountryCode h)
      else Undefined)"

definition isPresent :: "val \<Rightarrow> bool" where
  "isPresent x \<longleftrightarrow> x \<noteq> Null \<and> x \<noteq> Undefined \<and> x \<noteq> Str []"

text \<open>\<^verbatim>\<open>isPresent(found[source][key])\<close> and \<^verbatim>\<open>found[source][key] ?? null\<close>.\<close>

fun isPresentFound :: "fval option \<Rightarrow> bool" where
  "isPresentFound None = False"
| "isPresentFound (Some (Single v)) = isPresent v"
| "isPresentFound (Some (Many vs)) = True"

fun foundOrNull :: "fval option \<Rightarrow> pval" where
  "foundOrNull None = Scalar Null"
| "foundOrNull (Some (Single v)) = Scalar (orNull v)"
| "foundOrNull (Some (Many vs)) = Column vs"

text \<open>
  One \<^verbatim>\<open>forEach\<close> over the array of an inner key: \<^verbatim>\<open>results[idx]\<close> is created when
  it does not exist yet, and gets \<^verbatim>\<open>value ?? null\<close> at the inner key.
\<close>

fun mergeColumn :: "string \<Rightarrow> val list \<Rightarrow> val obj list \<Rightarrow> val obj list" where
  "mergeColumn innerKey [] results = results"
| "mergeColumn innerKey (v # vs) [] = [(innerKey, orNull v)] # mergeColumn innerKey vs []"
| "mergeColumn innerKey (v # vs) (r # results) =
     AList.update innerKey (orNull v) r # mergeColumn innerKey vs results"

text \<open>
  The loop over \<^verbatim>\<open>innerKeys\<close>, on \<^verbatim>\<open>found[source]\<close>; reading a member of
  \<^verbatim>\<open>undefined\<close> and calling \<^verbatim>\<open>forEach\<close> on anything but an array are a \<^verbatim>\<open>TypeError\<close>.
\<close>

fun mergeColumns :: "fval obj option \<Rightarrow> string list \<Rightarrow> val obj list \<Rightarrow> error + val obj list" where
  "mergeColumns grp [] results = Inr results"
| "mergeColumns grp (innerKey # innerKeys) results =
     (case grp of
        None \<Rightarrow> Inl (TypeError ''Cannot read properties of undefined'')
      | Some sub \<Rightarrow>
          (case map_of sub innerKey of
             Some (Many vs) \<Rightarrow> mergeColumns grp innerKeys (mergeColumn innerKey vs results)
           | _ \<Rightarrow> Inl (TypeError ''forEach is not a function'')))"

definition entryAt :: "val obj \<Rightarrow> string \<Rightarrow> val" where
  "entryAt entry x = (case map_of entry x of None \<Rightarrow> Undefined | Some v \<Rightarrow> v)"

definition allFieldsPresent :: "string list \<Rightarrow> val obj \<Rightarrow> bool" where
  "allFieldsPresent required entry = list_all (\<lambda>x. isPresent (entryAt entry x)) required"

text \<open>The decimal key of an array index, and the spread \<^verbatim>\<open>{ ...xs }\<close> of an array.\<close>

fun indexKey :: "nat \<Rightarrow> string" where
  "indexKey n =
     (if n < 10 then [''0123456789'' ! n]
      else indexKey (n div 10) @ [''0123456789'' ! (n mod 10)])"

declare indexKey.simps [simp del]

definition spread :: "'a list \<Rightarrow> 'a obj" where
  "spread xs = zip (map indexKey [0..<length xs]) xs"

text \<open>
  The loop over \<^verbatim>\<open>schema.fields\<close> of one action. \<open>Inr None\<close> stands for
  \<^verbatim>\<open>continue nextaction\<close>, \<open>Inr (Some payload)\<close> for reaching the end of the loop.
\<close>

fun processFields ::
  "input_group obj \<Rightarrow> fval obj obj \<Rightarrow> (string \<Rightarrow> val) \<Rightarrow> field list \<Rightarrow> pval obj
     \<Rightarrow> error + pval obj option" where
  "processFields inp found ctx [] payload = Inr (Some payload)"
| "processFields inp found ctx (f # fs) payload =
     (if truthy (source f) then
        (case map_of inp (the (source f)) of
           None \<Rightarrow> Inl (BadPatternError ''Output rule references invalid input source'')
         | Some g \<Rightarrow>
             (case first g of
                Some fm \<Rightarrow>
                  (case map_of found (the (source f)) of
                     None \<Rightarrow> Inl (TypeError ''Cannot read properties of undefined'')
                   | Some sub \<Rightarrow>
                       if \<not> optional f \<and> \<not> isPresentFound (map_of sub (key f)) then Inr None
                       else processFields inp found ctx fs
                              (AList.update (key f) (foundOrNull (map_of sub (key f))) payload))
              | None \<Rightarrow>
                  (case all g of
                     Some fm \<Rightarrow>
                       (let innerKeys = map fst fm in
                        case mergeColumns (map_of found (the (source f))) innerKeys [] of
                          Inl e \<Rightarrow> Inl e
                        | Inr results \<Rightarrow>
                            (let required =
                                   (case requiredKeys f of None \<Rightarrow> innerKeys | Some r \<Rightarrow> r);
                                 cleanedResults = filter (allFieldsPresent required) results
                             in if length cleanedResults = 0 \<and> \<not> optional f then Inr None
                                else processFields inp found ctx fs
                                       (AList.update (key f) (Entries (spread cleanedResults))
                                          payload)))
                   | None \<Rightarrow> Inl (BadPatternError ''Output rule does not match input key''))))
      else
        (if \<not> optional f \<and> \<not> isPresent (ctx (key f)) then processFields inp found ctx fs payload
         else processFields inp found ctx fs
                (AList.update (key f) (Scalar (orNull (ctx (key f)))) payload)))"

text \<open>
  A message \<^verbatim>\<open>{ body: { action, payload, ver, 'anti-duplicates' }, deduplicateBy }\<close>,
  with the body's members side by side.
\<close>

record message =
  action :: string
  payload :: "pval obj"
  ver :: nat
  anti_duplicates :: int
  msg_deduplicateBy :: "val option"

text \<open>The loop over \<^verbatim>\<open>Object.entries(output)\<close>; each pushed message takes one random draw.\<close>

fun buildMessages ::
  "'e host \<Rightarrow> input_group obj \<Rightarrow> fval obj obj \<Rightarrow> (string \<Rightarrow> val) \<Rightarrow> schema obj \<Rightarrow> message list
     \<Rightarrow> error + message list" where
  "buildMessages h inp found ctx [] messages = Inr messages"
| "buildMessages h inp found ctx ((act, sch) # rest) messages =
     (case processFields inp found ctx (schemaFields sch) [] of
        Inl e \<Rightarrow> Inl e
      | Inr None \<Rightarrow> buildMessages h inp found ctx rest messages
      | Inr (Some p) \<Rightarrow>
          buildMessages h inp found ctx rest
            (messages @
              [\<lparr>action = act, payload = p, ver = 4,
                anti_duplicates = randomDraw h (length messages),
                msg_deduplicateBy = deduplicateBy sch\<rparr>]))"

subsection \<open>Redundancy filter\<close>

text \<open>
  The predicate of \<^verbatim>\<open>messages.filter\<close>; destructuring \<^verbatim>\<open>output[msg.body.action]\<close>
  raises when the action has no schema.
\<close>

definition isRedundant :: "schema obj \<Rightarrow> message list \<Rightarrow> message \<Rightarrow> error + bool" where
  "isRedundant out messages msg =
     (case map_of out (action msg) of
        None \<Rightarrow> Inl (TypeError ''Cannot destructure undefined'')
      | Some sch \<Rightarrow>
          Inr (list_ex (\<lambda>a. list_ex (\<lambda>x. action x = a) messages)
                 (case omitIfExistsAny sch of None \<Rightarrow> [] | Some l \<Rightarrow> l)))"

fun filterMessages :: "schema obj \<Rightarrow> message list \<Rightarrow> message list \<Rightarrow> error + message list" where
  "filterMessages out messages [] = Inr []"
| "filterMessages out messages (msg # rest) =
     (case isRedundant out messages msg of
        Inl e \<Rightarrow> Inl e
      | Inr red \<Rightarrow>
          (case filterMessages out messages rest of
             Inl e \<Rightarrow> Inl e
           | Inr kept \<Rightarrow> Inr (if red then kept else msg # kept)))"

subsection \<open>The extraction as a whole\<close>

text \<open>
  \<open>rules\<close> is the snapshot \<^verbatim>\<open>this.patterns.getRulesSnapshot()\<close> and \<open>url\<close> is
  \<^verbatim>\<open>doublefetchRequest.url\<close>.
\<close>

definition extractMessages ::
  "'e host \<Rightarrow> rule obj \<Rightarrow> 'e document \<Rightarrow> val \<Rightarrow> string \<Rightarrow> string \<Rightarrow> error + message list" where
  "extractMessages h rules doc query category url =
     (case map_of rules category of
        None \<Rightarrow> Inr []
      | Some r \<Rightarrow>
          (case runPrune h doc (prune r) of
             Inl e \<Rightarrow> Inl e
           | Inr d \<Rightarrow>
               (case evalInput h d url (input r) [] of
                  Inl e \<Rightarrow> Inl e
                | Inr found \<Rightarrow>
                    (case buildMessages h (input r) found (contextLookup h query url) (output r) [] of
                       Inl e \<Rightarrow> Inl e
                     | Inr messages \<Rightarrow> filterMessages (output r) messages messages))))"

section \<open>Job entry point\<close>

text \<open>
  \<^verbatim>\<open>String.prototype.trim\<close> strips white space and line terminators from both ends;
  among the 8-bit code units these are tab, line feed, vertical tab, form feed,
  carriage return, space and the no-break space.
\<close>

definition isWhiteSpace :: "char \<Rightarrow> bool" where
  "isWhiteSpace c \<longleftrightarrow>
     c \<in> set [CHR 0x09, CHR 0x0A, CHR 0x0B, CHR 0x0C, CHR 0x0D, CHR 0x20, CHR 0xA0]"

definition trim :: "string \<Rightarrow> string" where
  "trim s = rev (dropWhile isWhiteSpace (rev (dropWhile isWhiteSpace s)))"

text \<open>
  \<open>fastHash s t\<close> is \<^verbatim>\<open>fastHash(s, { truncate: t })\<close> of the module \<^verbatim>\<open>utils\<close>, which
  is not part of the sources at hand; it is a parameter.
\<close>

definition doublefetchQueryHash :: "(string \<Rightarrow> bool \<Rightarrow> 'h) \<Rightarrow> string \<Rightarrow> string \<Rightarrow> 'h" where
  "doublefetchQueryHash fastHash query category =
     fastHash (''dfq:'' @ category @ '':'' @ trim query) True"

text \<open>
  The request carries \<^verbatim>\<open>url\<close>; \<^verbatim>\<open>headers\<close>, \<^verbatim>\<open>redirect\<close> and \<^verbatim>\<open>steps\<close> are
  forwarded to the fetch as they are and live in the extension of the record.
\<close>

record request =
  url :: string

datatype level = Debug | Info | Warn

text \<open>The calls a job makes to its collaborators, in the order it makes them.\<close>

datatype 'h event =
    EvAdd 'h nat
  | EvDelete 'h
  | EvHttpGet string
  | EvParseHtml
  | EvExtract
  | EvLog level

text \<open>
  The collaborators of a job: the sanitizer's query check (\<open>accept\<close>, \<open>reason\<close>),
  the hash function, the expiration of the day, the store of persisted hashes with
  its state \<open>'s\<close> (\<open>add\<close> answers whether the hash was newly added), the anonymous
  fetch and the HTML parser (\<open>Inl\<close> when they throw), the rendering of an error in
  a template string, and the snapshot of the rules.
\<close>

record ('h, 's, 'x, 'e, 'r) collaborators =
  checkSuspiciousQuery :: "string \<Rightarrow> bool \<times> string"
  fastHash :: "string \<Rightarrow> bool \<Rightarrow> 'h"
  timezoneAgnosticDailyExpireAt :: nat
  hashesAdd :: "'s \<Rightarrow> 'h \<Rightarrow> nat \<Rightarrow> bool \<times> 's"
  hashesDelete :: "'s \<Rightarrow> 'h \<Rightarrow> 's"
  anonymousHttpGet :: "'r request_scheme \<Rightarrow> 'x + string"
  parseHtml :: "string \<Rightarrow> 'x + 'e document"
  showError :: "error \<Rightarrow> string"
  getRulesSnapshot :: "rule obj"

record job_result =
  messages :: "message list"
  reason :: "string option"

definition discard :: "string \<Rightarrow> job_result" where
  "discard why = \<lparr>messages = [], reason = Some why\<rparr>"

text \<open>
  The job returns its result (\<open>Inl\<close> when it throws), the state of the hash store
  and the trace of its calls. A rejection of \<^verbatim>\<open>persistedHashes.delete\<close> is swallowed
  by \<^verbatim>\<open>.catch(() => {})\<close>.
\<close>

definition runJob ::
  "('h, 's, 'x, 'e, 'r) collaborators \<Rightarrow> 'e host \<Rightarrow> 's \<Rightarrow> string \<Rightarrow> string \<Rightarrow> 'r request_scheme
     \<Rightarrow> ('x + job_result) \<times> 's \<times> 'h event list" where
  "runJob c h st query category doublefetchRequest =
     (let queryCheck = checkSuspiciousQuery c query in
      if \<not> fst queryCheck then
        (Inr (discard (''Dropping suspicious query before double-fetch ('' @ snd queryCheck @ '')'')),
         st, [EvLog Debug])
      else
        (let queryHash = doublefetchQueryHash (fastHash c) query category;
             expireAt = timezoneAgnosticDailyExpireAt c;
             added = hashesAdd c st queryHash expireAt;
             wasAdded = fst added;
             st1 = snd added;
             t1 = [EvAdd queryHash expireAt]
         in if \<not> wasAdded then
              (Inr (discard ''Query has been recently seen.''), st1, t1 @ [EvLog Debug])
            else
              (case anonymousHttpGet c doublefetchRequest of
                 Inl e \<Rightarrow>
                   (Inl e, hashesDelete c st1 queryHash,
                    t1 @ [EvHttpGet (url doublefetchRequest), EvLog Info, EvDelete queryHash])
               | Inr html \<Rightarrow>
                   (case parseHtml c html of
                      Inl e \<Rightarrow>
                        (Inl e, hashesDelete c st1 queryHash,
                         t1 @ [EvHttpGet (url doublefetchRequest), EvParseHtml, EvLog Info,
                               EvDelete queryHash])
                    | Inr doc \<Rightarrow>
                        (let t2 = t1 @ [EvHttpGet (url doublefetchRequest), EvParseHtml, EvExtract] in
                         case extractMessages h (getRulesSnapshot c) doc (Str query) category
                                (url doublefetchRequest) of
                           Inr msgs \<Rightarrow>
                             if length msgs = 0 then
                               (Inr (discard ''No content found.''), st1, t2 @ [EvLog Debug])
                             else (Inr \<lparr>messages = msgs, reason = None\<rparr>, st1, t2)
                         | Inl e \<Rightarrow>
                             (Inr (discard (''Unsupported pattern: '' @ showError c e)), st1,
                              t2 @ [EvLog Warn, EvLog Debug]))))))"

section \<open>Scenarios of the test suite\<close>

text \<open>
  A page in the style of the scenarios of \<^verbatim>\<open>search-extractor.spec.js\<close>, with elements
  numbered: the body (0), the link \<^verbatim>\<open>#rellink\<close> (1), \<^verbatim>\<open>div#foo\<close> (2), a \<^verbatim>\<open>div\<close> with a
  text (3), three list items (4, 5, 6) of which the first two hold a link (7, 8), a
  detached link with a malformed address (9), and
  \<^verbatim>\<open>div#empty\<close> (10) with an empty attribute. The host resolves a path against the
  origin of the test URL and knows one transform, which appends its argument.
\<close>

definition testUrl :: string where
  "testUrl = ''http://example.test/x?q=some-query''"

definition testDocument :: "nat document" where
  "testDocument =
     \<lparr>docQuerySelector = (\<lambda>s. if s = ''html body'' then Some 0
                              else if s = ''html > body > div'' then Some 3 else None),
      docQuerySelectorAll = (\<lambda>s. if s = ''li.result'' then Some [4, 5, 6] else Some []),
      querySelector = (\<lambda>e s. if e = 0 \<and> s = ''#rellink'' then Some 1
                             else if e = 0 \<and> s = ''div#foo'' then Some 2
                             else if e = 0 \<and> s = ''div#empty'' then Some 10
                             else if e = 4 \<and> s = ''a'' then Some 7
                             else if e = 5 \<and> s = ''a'' then Some 8
                             else None),
      textContent = (\<lambda>e. if e = 3 then ''Some text'' else []),
      getAttribute = (\<lambda>e a. if e = 1 \<and> a = ''href'' then Some ''/foo?bar=42''
                            else if e = 2 \<and> a = ''bar'' then Some ''Some text to extract''
                            else if e = 4 \<and> a = ''title'' then Some ''First''
                            else if e = 5 \<and> a = ''title'' then Some ''Second''
                            else if e = 6 \<and> a = ''title'' then Some ''Third''
                            else if e = 7 \<and> a = ''href'' then Some ''/a''
                            else if e = 8 \<and> a = ''href'' then Some []
                            else if e = 9 \<and> a = ''href'' then Some ''http://[''
                            else if e = 10 \<and> a = ''bar'' then Some []
                            else None),
      hasAttribute = (\<lambda>e a. (e = 1 \<and> a = ''href'') \<or> (e = 2 \<and> a = ''bar'')
                            \<or> (e \<in> {4, 5, 6} \<and> a = ''title'') \<or> (e \<in> {7, 8, 9} \<and> a = ''href'')
                            \<or> (e = 10 \<and> a = ''bar'')),
      hrefProperty = (\<lambda>e. ''chrome-extension://id/foo?bar=42'')\<rparr>"

definition testHost :: "nat host" where
  "testHost =
     \<lparr>resolveURL = (\<lambda>raw base. if base = testUrl \<and> take 1 raw = ''/''
                                then Some (''http://example.test'' @ raw) else None),
      removeElem = (\<lambda>d e. d),
      registry = (\<lambda>n. if n = ''suffix'' then Some (\<lambda>v args. case (v, args) of
                                  (Str s, [Str t]) \<Rightarrow> Str (s @ t) | _ \<Rightarrow> Null)
                        else None),
      getSafeCountryCode = ''de'',
      randomDraw = (\<lambda>k. 4711 + int k)\<rparr>"


definition twoChainDef :: selector_def where
  "twoChainDef =
     \<lparr>select = None, attr = [], transform = Some (StepList [Step ''suffix'' [Str ''2'']]),
      firstMatch = Some
        [\<lparr>select = Some ''#nope'', attr = ''href'', transform = None\<rparr>,
         \<lparr>select = Some ''div#foo'', attr = ''bar'',
          transform = Some (StepList [Step ''suffix'' [Str ''1'']])\<rparr>]\<rparr>"

definition plainDef :: selector_def where
  "plainDef =
     \<lparr>select = Some ''div#foo'', attr = ''bar'',
      transform = Some (StepList [Step ''suffix'' [Str ''2'']]), firstMatch = None\<rparr>"

definition linkField :: "bool \<Rightarrow> field" where
  "linkField opt = \<lparr>key = ''rellink'', source = Some ''html body'', requiredKeys = None, optional = opt\<rparr>"

text \<open>
  The rules of the scenarios: the relative link with a redundant and a non-redundant
  action, the unknown transform, an action that lists itself in \<^verbatim>\<open>omitIfExistsAny\<close>,
  an attribute whose value is the empty string, and an \<^verbatim>\<open>all\<close> group over the list
  items.
\<close>

definition exampleRule :: rule where
  "exampleRule =
     \<lparr>prune = [],
      input = [(''html body'',
                \<lparr>first = Some [(''rellink'', \<lparr>select = Some ''#rellink'', attr = ''href'',
                                              transform = None, firstMatch = None\<rparr>)],
                 all = None\<rparr>)],
      output = [(''test-action'',
                 \<lparr>schemaFields = [linkField False], omitIfExistsAny = None, deduplicateBy = None\<rparr>),
                (''redundant-test-action'',
                 \<lparr>schemaFields = [linkField False], omitIfExistsAny = Some [''test-action''],
                  deduplicateBy = None\<rparr>),
                (''non-redundant-test-action'',
                 \<lparr>schemaFields = [linkField False],
                  omitIfExistsAny = Some [''some-message-that-does-not-exist''],
                  deduplicateBy = None\<rparr>)]\<rparr>"

definition unknownDef :: selector_def where
  "unknownDef =
     \<lparr>select = None, attr = ''textContent'',
      transform = Some (StepList [Step ''thisBuiltinDoesNotExist'' []]), firstMatch = None\<rparr>"

definition unsupportedRule :: rule where
  "unsupportedRule =
     \<lparr>prune = [],
      input = [(''html > body > div'', \<lparr>first = Some [(''title'', unknownDef)], all = None\<rparr>)],
      output = [(''test-action'',
                 \<lparr>schemaFields = [\<lparr>key = ''extractedText'', source = Some ''html > body > div'',
                                    requiredKeys = None, optional = False\<rparr>],
                  omitIfExistsAny = None, deduplicateBy = None\<rparr>)]\<rparr>"

definition selfRedundantRule :: rule where
  "selfRedundantRule =
     \<lparr>prune = [], input = [],
      output = [(''test-action'',
                 \<lparr>schemaFields = [\<lparr>key = ''q'', source = None, requiredKeys = None,
                                    optional = False\<rparr>],
                  omitIfExistsAny = Some [''test-action''], deduplicateBy = None\<rparr>)]\<rparr>"

definition emptyField :: "bool \<Rightarrow> field" where
  "emptyField opt = \<lparr>key = ''t'', source = Some ''html body'', requiredKeys = None, optional = opt\<rparr>"

definition emptyAttributeRule :: rule where
  "emptyAttributeRule =
     \<lparr>prune = [],
      input = [(''html body'',
                \<lparr>first = Some [(''t'', \<lparr>select = Some ''div#empty'', attr = ''bar'',
                                        transform = None, firstMatch = None\<rparr>)],
                 all = None\<rparr>)],
      output = [(''optional-action'',
                 \<lparr>schemaFields = [emptyField True], omitIfExistsAny = None, deduplicateBy = None\<rparr>),
                (''required-action'',
                 \<lparr>schemaFields = [emptyField False], omitIfExistsAny = None,
                  deduplicateBy = None\<rparr>)]\<rparr>"

definition listField :: "string list option \<Rightarrow> field" where
  "listField req = \<lparr>key = ''r'', source = Some ''li.result'', requiredKeys = req, optional = False\<rparr>"

definition listGroup :: input_group where
  "listGroup =
     \<lparr>first = None,
      all = Some [(''title'', \<lparr>select = None, attr = ''title'', transform = None,
                               firstMatch = None\<rparr>),
                  (''link'', \<lparr>select = Some ''a'', attr = ''href'', transform = None,
                              firstMatch = None\<rparr>)]\<rparr>"

definition listRule :: rule where
  "listRule =
     \<lparr>prune = [],
      input = [(''li.result'', listGroup)],
      output = [(''results'',
                 \<lparr>schemaFields = [listField None], omitIfExistsAny = None, deduplicateBy = None\<rparr>),
                (''titles'',
                 \<lparr>schemaFields = [listField (Some [''title''])], omitIfExistsAny = None,
                  deduplicateBy = None\<rparr>)]\<rparr>"

text \<open>The extraction map of the list scenario.\<close>

definition listColumns :: "fval obj" where
  "listColumns =
     [(''title'', Many [Str ''First'', Str ''Second'', Str ''Third'']),
      (''link'', Many [Str ''http://example.test/a'', Null, Null])]"

definition testRules :: "rule obj" where
  "testRules =
     [(''example-test'', exampleRule),
      (''unsupported'', unsupportedRule),
      (''self-redundant'', selfRedundantRule),
      (''empty-attribute'', emptyAttributeRule),
      (''list'', listRule)]"

definition testCollaborators ::
  "(string, string list, string, nat, unit) collaborators" where
  "testCollaborators =
     \<lparr>checkSuspiciousQuery = (\<lambda>q. (length q < 20, ''too long'')),
      fastHash = (\<lambda>s t. if t then take 16 s else s),
      timezoneAgnosticDailyExpireAt = 86400,
      hashesAdd = (\<lambda>st x t. (x \<notin> set st, if x \<in> set st then st else x # st)),
      hashesDelete = (\<lambda>st x. filter (\<lambda>y. y \<noteq> x) st),
      anonymousHttpGet = (\<lambda>r. if url r = testUrl then Inr ''<html></html>''
                               else Inl ''network error''),
      parseHtml = (\<lambda>s. if s = ''<html></html>'' then Inr testDocument else Inl ''parse error''),
      showError = (\<lambda>e. case e of BadPatternError m \<Rightarrow> m
                                | UnsupportedTransformError m \<Rightarrow> m
                                | TypeError m \<Rightarrow> m),
      getRulesSnapshot = testRules\<rparr>"

section \<open>Notions used in the statements\<close>

text \<open>
  The \<^verbatim>\<open>omitIfExistsAny\<close> list that the output section holds for the action of a
  message (empty when there is none).
\<close>

definition omitListOf :: "schema obj \<Rightarrow> message \<Rightarrow> string list" where
  "omitListOf out m =
     (case map_of out (action m) of
        None \<Rightarrow> []
      | Some sch \<Rightarrow> (case omitIfExistsAny sch of None \<Rightarrow> [] | Some l \<Rightarrow> l))"

text \<open>Reading a decimal key back, the inverse of \<open>indexKey\<close>.\<close>

definition decodeKey :: "string \<Rightarrow> nat" where
  "decodeKey s = foldl (\<lambda>a c. 10 * a + (of_char c - 48)) 0 s"

section \<open>Properties of the selector evaluator\<close>

text \<open>
  Claim C1. Let \<open>elem\<close> be the element \<^verbatim>\<open>runSelector\<close> looks at (the match of the
  selector, or the item itself without a selector). With \<^verbatim>\<open>attr = 'href'\<close> the
  result is the raw attribute value resolved against \<^verbatim>\<open>baseURI\<close>, once and as the
  host's URL resolution returns it; when the host rejects the URL the exception
  propagates; when the raw attribute is absent or empty the result is \<^verbatim>\<open>null\<close>.
  The DOM-resolved property \<^verbatim>\<open>elem.href\<close> has no influence on the result.
\<close>

theorem runSelector_href:
  assumes "(if truthy selector then querySelector d item (the selector) else Some item) = Some elem"
  shows "(\<forall>raw u. getAttribute d elem ''href'' = Some raw \<and> raw \<noteq> [] \<and> resolveURL h raw baseURI = Some u
            \<longrightarrow> runSelector h d item selector ''href'' baseURI = Inr (Str u))
       \<and> (\<forall>raw. getAttribute d elem ''href'' = Some raw \<and> raw \<noteq> [] \<and> resolveURL h raw baseURI = None
            \<longrightarrow> (\<exists>e. runSelector h d item selector ''href'' baseURI = Inl e))
       \<and> (getAttribute d elem ''href'' = None \<or> getAttribute d elem ''href'' = Some []
            \<longrightarrow> runSelector h d item selector ''href'' baseURI = Inr Null)
       \<and> (\<forall>p. runSelector h (d\<lparr>hrefProperty := p\<rparr>) item selector ''href'' baseURI
                = runSelector h d item selector ''href'' baseURI)"
proof (cases "truthy selector")
  case True
  with assms have q: "querySelector d item (the selector) = Some elem" by simp
  show ?thesis using True q by (auto simp: runSelector_def Let_def)
next
  case False
  with assms have "item = elem" by simp
  then show ?thesis using False by (auto simp: runSelector_def Let_def)
qed

theorem runSelector_href_witness:
  "(if truthy (Some ''#rellink'') then querySelector testDocument 0 (the (Some ''#rellink''))
    else Some 0) = Some 1
   \<and> getAttribute testDocument 1 ''href'' = Some ''/foo?bar=42''
   \<and> runSelector testHost testDocument 0 (Some ''#rellink'') ''href'' testUrl
       = Inr (Str ''http://example.test/foo?bar=42'')
   \<and> getAttribute testDocument 8 ''href'' = Some []
   \<and> runSelector testHost testDocument 8 None ''href'' testUrl = Inr Null
   \<and> getAttribute testDocument 3 ''href'' = None
   \<and> runSelector testHost testDocument 3 None ''href'' testUrl = Inr Null
   \<and> getAttribute testDocument 9 ''href'' = Some ''http://[''
   \<and> resolveURL testHost ''http://['' testUrl = None
   \<and> runSelector testHost testDocument 9 None ''href'' testUrl = Inl (TypeError ''Invalid URL'')
   \<and> runSelector testHost (testDocument\<lparr>hrefProperty := (\<lambda>e. [])\<rparr>) 0 (Some ''#rellink'')
         ''href'' testUrl
       = runSelector testHost testDocument 0 (Some ''#rellink'') ''href'' testUrl"
  using runSelector_href [of "Some ''#rellink''" testDocument 0 1 testHost testUrl]
        runSelector_href [of None testDocument 8 8 testHost testUrl]
        runSelector_href [of None testDocument 3 3 testHost testUrl]
        runSelector_href [of None testDocument 9 9 testHost testUrl]
  by (simp add: testDocument_def testHost_def testUrl_def runSelector_def Let_def)

section \<open>Properties of the message assembler\<close>

lemma processFields_context_only:
  "\<forall>f\<in>set fs. \<not> truthy (source f) \<Longrightarrow> \<exists>p'. processFields inp found ctx fs p = Inr (Some p')"
  by (induction fs arbitrary: p) auto

text \<open>
  Claim C9. A context field (no source) that is optional and whose context value is
  \<^verbatim>\<open>null\<close> or \<^verbatim>\<open>undefined\<close> is put into the payload with the value \<^verbatim>\<open>null\<close>; a
  context field that is not optional and whose value is absent leaves the payload as
  it was. In both cases the loop goes on with the remaining fields of the action,
  and an action of context fields only always yields a payload.
\<close>

theorem context_field:
  assumes "\<not> truthy (source f)"
  shows "(optional f \<and> (ctx (key f) = Null \<or> ctx (key f) = Undefined)
            \<longrightarrow> processFields inp found ctx (f # fs) p
                = processFields inp found ctx fs (AList.update (key f) (Scalar Null) p))
       \<and> (\<not> optional f \<and> \<not> isPresent (ctx (key f))
            \<longrightarrow> processFields inp found ctx (f # fs) p = processFields inp found ctx fs p)
       \<and> ((\<forall>g\<in>set fs. \<not> truthy (source g))
            \<longrightarrow> (\<exists>p'. processFields inp found ctx (f # fs) p = Inr (Some p')))"
proof -
  have "(\<forall>g\<in>set fs. \<not> truthy (source g))
          \<Longrightarrow> \<exists>p'. processFields inp found ctx (f # fs) p = Inr (Some p')"
    using assms processFields_context_only [of "f # fs" inp found ctx p] by simp
  then show ?thesis using assms by (auto simp: isPresent_def)
qed

theorem context_field_witness:
  "\<not> truthy (source \<lparr>key = ''q'', source = None, requiredKeys = None, optional = True\<rparr>)
   \<and> contextLookup testHost Null testUrl ''q'' = Null
   \<and> processFields [] [] (contextLookup testHost Null testUrl)
        [\<lparr>key = ''q'', source = None, requiredKeys = None, optional = True\<rparr>] []
       = Inr (Some [(''q'', Scalar Null)])
   \<and> \<not> isPresent (contextLookup testHost Null testUrl ''q'')
   \<and> processFields [] [] (contextLookup testHost Null testUrl)
        [\<lparr>key = ''q'', source = None, requiredKeys = None, optional = False\<rparr>] []
       = Inr (Some [])"
  using context_field [of "\<lparr>key = ''q'', source = None, requiredKeys = None, optional = True\<rparr>"
          "contextLookup testHost Null testUrl" "[]" "[]" "[]" "[]"]
        context_field [of "\<lparr>key = ''q'', source = None, requiredKeys = None, optional = False\<rparr>"
          "contextLookup testHost Null testUrl" "[]" "[]" "[]" "[]"]
  by (simp add: contextLookup_def isPresent_def)

section \<open>Properties of the rule evaluator\<close>

lemma runTransforms_orNull: "runTransforms h (orNull m) t = runTransforms h m t"
  by (cases m) (simp_all add: runTransforms_def split: option.splits tsteps.splits)

lemma firstMatchLoop_winner:
  assumes "\<forall>r\<in>set pre. runSelector h d item (select r) (attr r) b = Inr Null"
      and "runSelector h d item (select a) (attr a) b = Inr m" and "m \<noteq> Null" and "m \<noteq> Undefined"
  shows "firstMatchLoop h d item b (pre @ a # post) = runTransforms h m (transform a)"
  using assms
proof (induction pre)
  case Nil
  then have "orNull m \<noteq> Null" by (cases m) simp_all
  with Nil show ?case by (simp add: runTransforms_orNull)
next
  case (Cons r pre)
  then show ?case by simp
qed

text \<open>
  Claim C10. For a \<^verbatim>\<open>firstMatch\<close> definition, the first alternative whose selection
  is not \<^verbatim>\<open>null\<close> wins; its own transform chain runs on the match inside the search,
  and the top-level chain of the definition then runs on that result. For a plain
  definition the one chain runs once on the selection. This is so for the fields of
  a \<^verbatim>\<open>first\<close> group and for each root item of an \<^verbatim>\<open>all\<close> group.
\<close>

theorem firstMatch_two_chains:
  "(firstMatch def = Some (pre @ a # post)
      \<and> (\<forall>r\<in>set pre. runSelector h d item (select r) (attr r) b = Inr Null)
      \<and> runSelector h d item (select a) (attr a) b = Inr m \<and> m \<noteq> Null \<and> m \<noteq> Undefined
    \<longrightarrow> evalFirstFields h d item b ((k, def) # rest) sub
          = (case runTransforms h m (transform a) of
               Inl e \<Rightarrow> Inl e
             | Inr v \<Rightarrow>
                 (case runTransforms h v (transform def) of
                    Inl e \<Rightarrow> Inl e
                  | Inr w \<Rightarrow> evalFirstFields h d item b rest (AList.update k (Single w) sub)))
        \<and> evalRootItems h d b def (item # items) arr
          = (case runTransforms h m (transform a) of
               Inl e \<Rightarrow> Inl e
             | Inr v \<Rightarrow>
                 (case runTransforms h v (transform def) of
                    Inl e \<Rightarrow> Inl e
                  | Inr w \<Rightarrow> evalRootItems h d b def items (arr @ [w]))))
   \<and> (firstMatch def = None \<and> runSelector h d item (select def) (attr def) b = Inr m
    \<longrightarrow> evalFirstFields h d item b ((k, def) # rest) sub
          = (case runTransforms h m (transform def) of
               Inl e \<Rightarrow> Inl e
             | Inr w \<Rightarrow> evalFirstFields h d item b rest (AList.update k (Single w) sub))
        \<and> evalRootItems h d b def (item # items) arr
          = (case runTransforms h m (transform def) of
               Inl e \<Rightarrow> Inl e
             | Inr w \<Rightarrow> evalRootItems h d b def items (arr @ [w])))"
  by (auto simp: findFirstMatch_def firstMatchLoop_winner runTransforms_orNull split: sum.splits)

theorem firstMatch_two_chains_witness:
  "firstMatch twoChainDef
     = Some ([\<lparr>select = Some ''#nope'', attr = ''href'', transform = None\<rparr>]
             @ \<lparr>select = Some ''div#foo'', attr = ''bar'',
                transform = Some (StepList [Step ''suffix'' [Str ''1'']])\<rparr> # [])
   \<and> runSelector testHost testDocument 0 (Some ''#nope'') ''href'' testUrl = Inr Null
   \<and> runSelector testHost testDocument 0 (Some ''div#foo'') ''bar'' testUrl
       = Inr (Str ''Some text to extract'')
   \<and> evalFirstFields testHost testDocument 0 testUrl [(''t'', twoChainDef)] []
       = Inr [(''t'', Single (Str ''Some text to extract12''))]
   \<and> evalRootItems testHost testDocument testUrl twoChainDef [0] []
       = Inr [Str ''Some text to extract12'']
   \<and> firstMatch plainDef = None
   \<and> evalFirstFields testHost testDocument 0 testUrl [(''t'', plainDef)] []
       = Inr [(''t'', Single (Str ''Some text to extract2''))]
   \<and> evalRootItems testHost testDocument testUrl plainDef [0] []
       = Inr [Str ''Some text to extract2'']"
  using firstMatch_two_chains [of twoChainDef
          "[\<lparr>select = Some ''#nope'', attr = ''href'', transform = None\<rparr>]"
          "\<lparr>select = Some ''div#foo'', attr = ''bar'',
            transform = Some (StepList [Step ''suffix'' [Str ''1'']])\<rparr>" "[]"
          testHost testDocument 0 testUrl "Str ''Some text to extract''" "''t''" "[]" "[]" "[]" "[]"]
        firstMatch_two_chains [of plainDef "[]" undefined "[]"
          testHost testDocument 0 testUrl "Str ''Some text to extract''" "''t''" "[]" "[]" "[]" "[]"]
  by (simp add: twoChainDef_def plainDef_def testHost_def testDocument_def testUrl_def
        runSelector_def runTransforms_def lookupBuiltinTransform_def findFirstMatch_def)

section \<open>Properties of the job entry point\<close>



text \<open>
  Claim C6. After the fingerprint was added, a failure of the fetch or of the HTML
  parser makes the job delete the fingerprint and throw that error, without
  extracting; a failure of the extraction is logged and the job finishes with an
  empty message list, the fingerprint staying in the store.
\<close>

theorem job_failures:
  assumes "fst (checkSuspiciousQuery c query)"
      and "hashesAdd c st (doublefetchQueryHash (fastHash c) query category)
             (timezoneAgnosticDailyExpireAt c) = (True, st1)"
  shows "((anonymousHttpGet c req = Inl e
            \<or> (\<exists>html. anonymousHttpGet c req = Inr html \<and> parseHtml c html = Inl e))
          \<longrightarrow> (\<exists>t. runJob c h st query category req
                     = (Inl e, hashesDelete c st1 (doublefetchQueryHash (fastHash c) query category), t)
                   \<and> EvDelete (doublefetchQueryHash (fastHash c) query category) \<in> set t
                   \<and> EvExtract \<notin> set t))
       \<and> (\<forall>html doc err.
            anonymousHttpGet c req = Inr html \<and> parseHtml c html = Inr doc
            \<and> extractMessages h (getRulesSnapshot c) doc (Str query) category (url req) = Inl err
          \<longrightarrow> (\<exists>t. runJob c h st query category req
                     = (Inr \<lparr>messages = [], reason = Some (''Unsupported pattern: '' @ showError c err)\<rparr>,
                        st1, t)
                   \<and> (\<forall>x. EvDelete x \<notin> set t) \<and> EvLog Warn \<in> set t))"
  using assms
  by (auto simp: runJob_def discard_def Let_def)

theorem job_failures_witness:
  "fst (checkSuspiciousQuery testCollaborators ''some-query'')
   \<and> hashesAdd testCollaborators [] (doublefetchQueryHash (fastHash testCollaborators)
         ''some-query'' ''unsupported'') (timezoneAgnosticDailyExpireAt testCollaborators)
       = (True, [''dfq:unsupported:'']) 
   \<and> anonymousHttpGet testCollaborators \<lparr>url = ''http://down.test/''\<rparr> = Inl ''network error''
   \<and> runJob testCollaborators testHost [] ''some-query'' ''unsupported'' \<lparr>url = ''http://down.test/''\<rparr>
       = (Inl ''network error'', [],
          [EvAdd ''dfq:unsupported:'' 86400, EvHttpGet ''http://down.test/'', EvLog Info,
           EvDelete ''dfq:unsupported:''])
   \<and> extractMessages testHost testRules testDocument (Str ''some-query'') ''unsupported'' testUrl
       = Inl (UnsupportedTransformError ''thisBuiltinDoesNotExist'')
   \<and> runJob testCollaborators testHost [] ''some-query'' ''unsupported'' \<lparr>url = testUrl\<rparr>
       = (Inr \<lparr>messages = [], reason = Some ''Unsupported pattern: thisBuiltinDoesNotExist''\<rparr>,
          [''dfq:unsupported:''],
          [EvAdd ''dfq:unsupported:'' 86400, EvHttpGet testUrl, EvParseHtml, EvExtract,
           EvLog Warn, EvLog Debug])"
  using job_failures [of testCollaborators "''some-query''" "[]" "''unsupported''"
          "[''dfq:unsupported:'']" "\<lparr>url = ''http://down.test/''\<rparr>" "''network error''" testHost]
        job_failures [of testCollaborators "''some-query''" "[]" "''unsupported''"
          "[''dfq:unsupported:'']" "\<lparr>url = testUrl\<rparr>" "''network error''" testHost]
  by (simp add: testCollaborators_def doublefetchQueryHash_def trim_def isWhiteSpace_def
        runJob_def discard_def extractMessages_def testRules_def unsupportedRule_def unknownDef_def
        testHost_def
        testDocument_def
        testUrl_def findFirstMatch_def runSelector_def runTransforms_def lookupBuiltinTransform_def
        orEmpty_def Let_def)

section \<open>Properties of the redundancy filter\<close>

lemma filterMessages_eq:
  "\<forall>m\<in>set rest. map_of out (action m) \<noteq> None \<Longrightarrow>
   filterMessages out msgs rest
     = Inr (filter (\<lambda>m. \<not> (\<exists>a\<in>set (omitListOf out m). a \<in> action ` set msgs)) rest)"
proof (induction rest)
  case Nil
  then show ?case by simp
next
  case (Cons m rest)
  then obtain sch where sch: "map_of out (action m) = Some sch" by auto
  have red: "isRedundant out msgs m
               = Inr (\<exists>a\<in>set (omitListOf out m). a \<in> action ` set msgs)"
    by (auto simp: isRedundant_def omitListOf_def sch list_ex_iff)
  from Cons show ?case by (simp add: red)
qed

lemma filterMessages_subset:
  "filterMessages out msgs rest = Inr kept \<Longrightarrow> set kept \<subseteq> set rest"
  by (induction rest arbitrary: kept) (auto split: sum.splits if_splits)

lemma buildMessages_origin:
  "buildMessages h inp found ctx out acc = Inr msgs \<Longrightarrow> m \<in> set msgs \<Longrightarrow>
   m \<in> set acc \<or> (\<exists>sch p. (action m, sch) \<in> set out
                       \<and> processFields inp found ctx (schemaFields sch) [] = Inr (Some p))"
proof (induction out arbitrary: acc)
  case Nil
  then show ?case by simp
next
  case (Cons entry out)
  obtain act sch where entry: "entry = (act, sch)" by (cases entry)
  show ?case
  proof (cases "processFields inp found ctx (schemaFields sch) []")
    case (Inl e)
    with Cons.prems entry show ?thesis by simp
  next
    case (Inr r)
    show ?thesis
    proof (cases r)
      case None
      with Inr Cons.prems entry have "buildMessages h inp found ctx out acc = Inr msgs" by simp
      from Cons.IH [OF this Cons.prems(2)] show ?thesis by auto
    next
      case (Some p)
      let ?new = "\<lparr>action = act, payload = p, ver = 4,
                   anti_duplicates = randomDraw h (length acc),
                   msg_deduplicateBy = deduplicateBy sch\<rparr>"
      from Some Inr Cons.prems entry
      have "buildMessages h inp found ctx out (acc @ [?new]) = Inr msgs" by simp
      from Cons.IH [OF this Cons.prems(2)]
      show ?thesis using Some Inr entry by auto
    qed
  qed
qed

lemma buildMessages_has_schema:
  assumes "buildMessages h inp found ctx out [] = Inr msgs" and "m \<in> set msgs"
  shows "map_of out (action m) \<noteq> None"
proof -
  from buildMessages_origin [OF assms] obtain sch where "(action m, sch) \<in> set out" by auto
  then have "action m \<in> fst ` set out" by force
  then show ?thesis by (simp add: map_of_eq_None_iff)
qed

text \<open>
  Claim C2, as the code has it. The filter is a single pass against the list of all
  messages assembled before filtering: a message is dropped exactly when some action
  named in the \<^verbatim>\<open>omitIfExistsAny\<close> of its schema is the action of an assembled message,
  its own action included. A message that names its own action there is therefore
  always dropped, whether or not another listed action was emitted.
\<close>

theorem redundancy_filter:
  assumes "map_of rules category = Some r"
      and "runPrune h doc (prune r) = Inr d"
      and "evalInput h d baseURL (input r) [] = Inr found"
      and "buildMessages h (input r) found (contextLookup h query baseURL) (output r) [] = Inr msgs"
  shows "extractMessages h rules doc query category baseURL
           = Inr (filter (\<lambda>m. \<not> (\<exists>a\<in>set (omitListOf (output r) m). a \<in> action ` set msgs)) msgs)
       \<and> (\<forall>m\<in>set msgs. action m \<in> set (omitListOf (output r) m)
            \<longrightarrow> (\<forall>res. extractMessages h rules doc query category baseURL = Inr res \<longrightarrow> m \<notin> set res))"
proof -
  have "\<forall>m\<in>set msgs. map_of (output r) (action m) \<noteq> None"
    using buildMessages_has_schema [OF assms(4)] by blast
  from filterMessages_eq [OF this]
  have eq: "extractMessages h rules doc query category baseURL
           = Inr (filter (\<lambda>m. \<not> (\<exists>a\<in>set (omitListOf (output r) m). a \<in> action ` set msgs)) msgs)"
    using assms by (simp add: extractMessages_def)
  then show ?thesis by auto
qed

theorem redundancy_filter_witness:
  "map_of testRules ''example-test'' = Some exampleRule
   \<and> runPrune testHost testDocument (prune exampleRule) = Inr testDocument
   \<and> evalInput testHost testDocument testUrl (input exampleRule) []
       = Inr [(''html body'', [(''rellink'', Single (Str ''http://example.test/foo?bar=42''))])]
   \<and> map action (projr (buildMessages testHost (input exampleRule)
         [(''html body'', [(''rellink'', Single (Str ''http://example.test/foo?bar=42''))])]
         (contextLookup testHost (Str ''some-query'') testUrl) (output exampleRule) []))
       = [''test-action'', ''redundant-test-action'', ''non-redundant-test-action'']
   \<and> extractMessages testHost testRules testDocument (Str ''some-query'') ''example-test'' testUrl
       = Inr [\<lparr>action = ''test-action'',
               payload = [(''rellink'', Scalar (Str ''http://example.test/foo?bar=42''))], ver = 4,
               anti_duplicates = 4711, msg_deduplicateBy = None\<rparr>,
              \<lparr>action = ''non-redundant-test-action'',
               payload = [(''rellink'', Scalar (Str ''http://example.test/foo?bar=42''))], ver = 4,
               anti_duplicates = 4713, msg_deduplicateBy = None\<rparr>]"
  using redundancy_filter [of testRules "''example-test''" exampleRule testHost testDocument
          testDocument testUrl
          "[(''html body'', [(''rellink'', Single (Str ''http://example.test/foo?bar=42''))])]"
          "Str ''some-query''"
          "[\<lparr>action = ''test-action'',
               payload = [(''rellink'', Scalar (Str ''http://example.test/foo?bar=42''))], ver = 4,
               anti_duplicates = 4711, msg_deduplicateBy = None\<rparr>,
            \<lparr>action = ''redundant-test-action'',
               payload = [(''rellink'', Scalar (Str ''http://example.test/foo?bar=42''))], ver = 4,
               anti_duplicates = 4712, msg_deduplicateBy = None\<rparr>,
            \<lparr>action = ''non-redundant-test-action'',
               payload = [(''rellink'', Scalar (Str ''http://example.test/foo?bar=42''))], ver = 4,
               anti_duplicates = 4713, msg_deduplicateBy = None\<rparr>]"]
  by (simp add: testRules_def exampleRule_def linkField_def testHost_def testDocument_def testUrl_def
        findFirstMatch_def runSelector_def runTransforms_def orEmpty_def omitListOf_def Let_def
        isPresent_def)

text \<open>
  An action that lists only itself: its message is assembled and then dropped, although
  no other listed action was emitted.
\<close>

theorem redundancy_filter_counterexample:
  "buildMessages testHost (input selfRedundantRule) []
      (contextLookup testHost (Str ''some-query'') testUrl) (output selfRedundantRule) []
     = Inr [\<lparr>action = ''test-action'', payload = [(''q'', Scalar (Str ''some-query''))], ver = 4,
             anti_duplicates = 4711, msg_deduplicateBy = None\<rparr>]
   \<and> map_option omitIfExistsAny (map_of (output selfRedundantRule) ''test-action'')
       = Some (Some [''test-action''])
   \<and> extractMessages testHost testRules testDocument (Str ''some-query'') ''self-redundant'' testUrl
       = Inr []"
  by (simp add: selfRedundantRule_def testRules_def extractMessages_def contextLookup_def
        isPresent_def testHost_def isRedundant_def)

section \<open>Properties of single-value fields\<close>

lemma processFields_discard:
  "f \<in> set fs \<Longrightarrow> truthy (source f) \<Longrightarrow> map_of inp (the (source f)) = Some g \<Longrightarrow>
   first g = Some fm \<Longrightarrow> \<not> optional f \<Longrightarrow>
   \<not> isPresentFound (Option.bind (map_of found (the (source f))) (\<lambda>sub. map_of sub (key f))) \<Longrightarrow>
   processFields inp found ctx fs p \<noteq> Inr (Some p')"
proof (induction fs arbitrary: p)
  case Nil
  then show ?case by simp
next
  case (Cons x fs)
  show ?case
  proof (cases "x = f")
    case True
    with Cons.prems show ?thesis by (auto split: option.splits)
  next
    case False
    with Cons.prems have "f \<in> set fs" by simp
    note IH = Cons.IH [OF this Cons.prems(2-6)]
    show ?thesis
      using IH by (auto simp: Let_def split: option.splits sum.splits)
  qed
qed

text \<open>
  Claim C3, as the code has it. Let a field of an output action refer to a \<^verbatim>\<open>first\<close>
  input group. If the field is not optional and its extracted value is absent
  (\<^verbatim>\<open>undefined\<close>, \<^verbatim>\<open>null\<close> or the empty string), the extraction returns no message for
  that action. Otherwise the field is assigned \<^verbatim>\<open>value ?? null\<close>: \<^verbatim>\<open>undefined\<close> and
  \<^verbatim>\<open>null\<close> become \<^verbatim>\<open>null\<close>, and any other value, the empty string included, is
  assigned as it is.
\<close>

theorem single_value_field:
  assumes "map_of rules category = Some r"
      and "distinct (map fst (output r))"
      and "(act, sch) \<in> set (output r)"
      and "f \<in> set (schemaFields sch)"
      and "truthy (source f)"
      and "map_of (input r) (the (source f)) = Some g"
      and "first g = Some fm"
  shows "(\<forall>d found res.
            runPrune h doc (prune r) = Inr d \<and> evalInput h d baseURL (input r) [] = Inr found
            \<and> \<not> optional f
            \<and> \<not> isPresentFound (Option.bind (map_of found (the (source f))) (\<lambda>sub. map_of sub (key f)))
            \<and> extractMessages h rules doc query category baseURL = Inr res
            \<longrightarrow> (\<forall>m\<in>set res. action m \<noteq> act))
       \<and> (\<forall>found sub ctx fs p.
            map_of found (the (source f)) = Some sub
            \<and> (optional f \<or> isPresentFound (map_of sub (key f)))
            \<longrightarrow> processFields (input r) found ctx (f # fs) p
                = processFields (input r) found ctx fs
                    (AList.update (key f) (foundOrNull (map_of sub (key f))) p))
       \<and> foundOrNull None = Scalar Null
       \<and> foundOrNull (Some (Single Undefined)) = Scalar Null
       \<and> foundOrNull (Some (Single Null)) = Scalar Null
       \<and> (\<forall>v. v \<noteq> Undefined \<longrightarrow> foundOrNull (Some (Single v)) = Scalar v)"
proof -
  have part1: "\<forall>m\<in>set res. action m \<noteq> act"
    if pr: "runPrune h doc (prune r) = Inr d"
      and ev: "evalInput h d baseURL (input r) [] = Inr found"
      and opt: "\<not> optional f"
      and absent: "\<not> isPresentFound (Option.bind (map_of found (the (source f))) (\<lambda>sub. map_of sub (key f)))"
      and ex: "extractMessages h rules doc query category baseURL = Inr res"
    for d found res
  proof
    fix m assume m: "m \<in> set res"
    from ex assms(1) pr ev obtain msgs where
      bm: "buildMessages h (input r) found (contextLookup h query baseURL) (output r) [] = Inr msgs"
      and fm: "filterMessages (output r) msgs msgs = Inr res"
      by (auto simp: extractMessages_def split: sum.splits)
    from filterMessages_subset [OF fm] m have "m \<in> set msgs" by auto
    from buildMessages_origin [OF bm this] obtain sch' p where
      sch': "(action m, sch') \<in> set (output r)"
      and ok: "processFields (input r) found (contextLookup h query baseURL) (schemaFields sch') [] = Inr (Some p)"
      by auto
    show "action m \<noteq> act"
    proof
      assume "action m = act"
      with sch' assms(2,3) have "sch' = sch" by (metis eq_key_imp_eq_value)
      with ok processFields_discard [OF assms(4,5,6,7) opt absent] show False by blast
    qed
  qed
  have part2: "processFields (input r) found ctx (f # fs) p
                = processFields (input r) found ctx fs
                    (AList.update (key f) (foundOrNull (map_of sub (key f))) p)"
    if "map_of found (the (source f)) = Some sub"
      and "optional f \<or> isPresentFound (map_of sub (key f))"
    for found sub ctx fs p
    using that assms(5,6,7) by auto
  have part3: "\<forall>v. v \<noteq> Undefined \<longrightarrow> foundOrNull (Some (Single v)) = Scalar v"
  proof (intro allI impI)
    fix v :: val assume "v \<noteq> Undefined"
    then show "foundOrNull (Some (Single v)) = Scalar v" by (cases v) simp_all
  qed
  show ?thesis
  proof (intro conjI)
    show "\<forall>d found res.
            runPrune h doc (prune r) = Inr d \<and> evalInput h d baseURL (input r) [] = Inr found
            \<and> \<not> optional f
            \<and> \<not> isPresentFound (Option.bind (map_of found (the (source f))) (\<lambda>sub. map_of sub (key f)))
            \<and> extractMessages h rules doc query category baseURL = Inr res
            \<longrightarrow> (\<forall>m\<in>set res. action m \<noteq> act)"
      using part1 by blast
    show "\<forall>found sub ctx fs p.
            map_of found (the (source f)) = Some sub
            \<and> (optional f \<or> isPresentFound (map_of sub (key f)))
            \<longrightarrow> processFields (input r) found ctx (f # fs) p
                = processFields (input r) found ctx fs
                    (AList.update (key f) (foundOrNull (map_of sub (key f))) p)"
      using part2 by blast
    show "\<forall>v. v \<noteq> Undefined \<longrightarrow> foundOrNull (Some (Single v)) = Scalar v"
      by (rule part3)
  qed simp_all
qed

text \<open>
  An optional field whose extracted value is the empty string: the value is absent,
  and the payload holds the empty string, not \<^verbatim>\<open>null\<close>.
\<close>

theorem single_value_field_counterexample:
  "\<not> isPresent (Str [])
   \<and> optional (emptyField True)
   \<and> evalInput testHost testDocument testUrl (input emptyAttributeRule) []
       = Inr [(''html body'', [(''t'', Single (Str []))])]
   \<and> extractMessages testHost testRules testDocument (Str ''some-query'') ''empty-attribute'' testUrl
       = Inr [\<lparr>action = ''optional-action'', payload = [(''t'', Scalar (Str []))], ver = 4,
               anti_duplicates = 4711, msg_deduplicateBy = None\<rparr>]
   \<and> Scalar (Str []) \<noteq> Scalar Null"
  by (simp add: testRules_def emptyAttributeRule_def emptyField_def testHost_def testDocument_def
        testUrl_def extractMessages_def findFirstMatch_def runSelector_def runTransforms_def
        orEmpty_def isPresent_def isRedundant_def Let_def)

theorem single_value_field_witness:
  "map_of testRules ''empty-attribute'' = Some emptyAttributeRule
   \<and> distinct (map fst (output emptyAttributeRule))
   \<and> (''required-action'',
       \<lparr>schemaFields = [emptyField False], omitIfExistsAny = None, deduplicateBy = None\<rparr>)
        \<in> set (output emptyAttributeRule)
   \<and> truthy (source (emptyField False))
   \<and> map_option first (map_of (input emptyAttributeRule) (the (source (emptyField False))))
       = Some (Some [(''t'', \<lparr>select = Some ''div#empty'', attr = ''bar'',
                              transform = None, firstMatch = None\<rparr>)])
   \<and> runPrune testHost testDocument (prune emptyAttributeRule) = Inr testDocument
   \<and> evalInput testHost testDocument testUrl (input emptyAttributeRule) []
       = Inr [(''html body'', [(''t'', Single (Str []))])]
   \<and> \<not> optional (emptyField False)
   \<and> \<not> isPresentFound (Some (Single (Str [])))
   \<and> map action (projr (extractMessages testHost testRules testDocument (Str ''some-query'')
         ''empty-attribute'' testUrl)) = [''optional-action'']
   \<and> processFields (input emptyAttributeRule) [(''html body'', [(''t'', Single (Str []))])]
         (contextLookup testHost (Str ''some-query'') testUrl) [emptyField True] []
       = Inr (Some [(''t'', Scalar (Str []))])"
  using single_value_field [of testRules "''empty-attribute''" emptyAttributeRule
          "''required-action''"
          "\<lparr>schemaFields = [emptyField False], omitIfExistsAny = None, deduplicateBy = None\<rparr>"
          "emptyField False"
          "\<lparr>first = Some [(''t'', \<lparr>select = Some ''div#empty'', attr = ''bar'',
                                   transform = None, firstMatch = None\<rparr>)], all = None\<rparr>"
          "[(''t'', \<lparr>select = Some ''div#empty'', attr = ''bar'',
                                   transform = None, firstMatch = None\<rparr>)]"
          testHost testDocument testUrl "Str ''some-query''"]
  by (simp add: testRules_def emptyAttributeRule_def emptyField_def testHost_def testDocument_def
        testUrl_def extractMessages_def findFirstMatch_def runSelector_def runTransforms_def
        orEmpty_def isPresent_def isRedundant_def Let_def)

section \<open>Properties of \<^verbatim>\<open>all\<close> input groups\<close>

lemma evalRootItems_length:
  "evalRootItems h d b def items arr = Inr res \<Longrightarrow> length res = length arr + length items"
  by (induction items arbitrary: arr) (auto split: sum.splits)

lemma evalAllFields_keeps:
  "evalAllFields h d roots b fm sub = Inr sub' \<Longrightarrow>
   \<exists>arr. map_of sub k = Some (Many arr) \<and> length arr = length roots \<Longrightarrow>
   \<exists>arr. map_of sub' k = Some (Many arr) \<and> length arr = length roots"
proof (induction fm arbitrary: sub)
  case Nil
  then show ?case by simp
next
  case (Cons entry fm)
  obtain k' def where entry: "entry = (k', def)" by (cases entry)
  from Cons.prems(1) entry obtain arr' where
    arr': "evalRootItems h d b def roots [] = Inr arr'"
    and rest: "evalAllFields h d roots b fm (AList.update k' (Many arr') sub) = Inr sub'"
    by (auto split: sum.splits)
  from evalRootItems_length [OF arr'] have "length arr' = length roots" by simp
  with Cons.prems(2)
  have "\<exists>arr. map_of (AList.update k' (Many arr') sub) k = Some (Many arr) \<and> length arr = length roots"
    by (auto simp: update_conv')
  from Cons.IH [OF rest this] show ?case .
qed

lemma evalAllFields_columns:
  "evalAllFields h d roots b fm sub = Inr sub' \<Longrightarrow> k \<in> fst ` set fm \<Longrightarrow>
   \<exists>arr. map_of sub' k = Some (Many arr) \<and> length arr = length roots"
proof (induction fm arbitrary: sub)
  case Nil
  then show ?case by simp
next
  case (Cons entry fm)
  obtain k' def where entry: "entry = (k', def)" by (cases entry)
  from Cons.prems(1) entry obtain arr' where
    arr': "evalRootItems h d b def roots [] = Inr arr'"
    and rest: "evalAllFields h d roots b fm (AList.update k' (Many arr') sub) = Inr sub'"
    by (auto split: sum.splits)
  from evalRootItems_length [OF arr'] have len: "length arr' = length roots" by simp
  show ?case
  proof (cases "k \<in> fst ` set fm")
    case True
    from Cons.IH [OF rest True] show ?thesis .
  next
    case False
    with Cons.prems(2) entry have "k = k'" by auto
    with len have "\<exists>arr. map_of (AList.update k' (Many arr') sub) k = Some (Many arr)
                      \<and> length arr = length roots"
      by (simp add: update_conv')
    from evalAllFields_keeps [OF rest this] show ?thesis .
  qed
qed

lemma evalAllFields_keys:
  "evalAllFields h d roots b fm sub = Inr sub' \<Longrightarrow> fst ` set sub' = fst ` set sub \<union> fst ` set fm"
proof (induction fm arbitrary: sub)
  case Nil
  then show ?case by simp
next
  case (Cons entry fm)
  obtain k' def where entry: "entry = (k', def)" by (cases entry)
  from Cons.prems(1) entry obtain arr' where
    rest: "evalAllFields h d roots b fm (AList.update k' (Many arr') sub) = Inr sub'"
    by (auto split: sum.splits)
  from Cons.IH [OF rest] show ?case using entry by (auto simp: dom_update)
qed

lemma evalInput_other:
  "evalInput h d b inp found = Inr found' \<Longrightarrow> selector \<notin> fst ` set inp \<Longrightarrow>
   map_of found' selector = map_of found selector"
proof (induction inp arbitrary: found)
  case Nil
  then show ?case by simp
next
  case (Cons entry inp)
  obtain s g where entry: "entry = (s, g)" by (cases entry)
  with Cons.prems(2) have ne: "selector \<noteq> s" and notin: "selector \<notin> fst ` set inp" by auto
  from Cons.prems(1) entry obtain found1 where
    rest: "evalInput h d b inp found1 = Inr found'"
    and same: "map_of found1 selector = map_of found selector"
    using ne by (auto simp: Let_def update_conv' split: option.splits sum.splits)
  from Cons.IH [OF rest notin] same show ?case by simp
qed

lemma evalInput_all_group:
  "evalInput h d b inp found = Inr found' \<Longrightarrow> distinct (map fst inp) \<Longrightarrow>
   (selector, g) \<in> set inp \<Longrightarrow> first g = None \<Longrightarrow> all g = Some fm \<Longrightarrow>
   docQuerySelectorAll d selector = Some roots \<Longrightarrow> map_of found selector = None \<Longrightarrow>
   \<exists>sub. map_of found' selector = Some sub \<and> fst ` set sub = fst ` set fm
       \<and> (\<forall>k\<in>fst ` set fm. \<exists>arr. map_of sub k = Some (Many arr) \<and> length arr = length roots)"
proof (induction inp arbitrary: found)
  case Nil
  then show ?case by simp
next
  case (Cons entry inp)
  obtain s g' where entry: "entry = (s, g')" by (cases entry)
  show ?case
  proof (cases "s = selector")
    case True
    with Cons.prems(2,3) entry have g': "g' = g" and notin: "selector \<notin> fst ` set inp"
      by (auto simp: image_iff) 
    from Cons.prems(1,4,5,6,7) entry True g' obtain sub' where
      sub': "evalAllFields h d roots b fm [] = Inr sub'"
      and rest: "evalInput h d b inp
                   (AList.update selector sub' (AList.update selector [] found)) = Inr found'"
      by (auto simp: Let_def orEmpty_def split: sum.splits)
    from evalInput_other [OF rest notin]
    have "map_of found' selector = Some sub'" by (simp add: update_conv')
    moreover from evalAllFields_keys [OF sub'] have "fst ` set sub' = fst ` set fm" by simp
    moreover from evalAllFields_columns [OF sub']
    have "\<forall>k\<in>fst ` set fm. \<exists>arr. map_of sub' k = Some (Many arr) \<and> length arr = length roots"
      by blast
    ultimately show ?thesis by blast
  next
    case False
    with Cons.prems(3) entry have mem: "(selector, g) \<in> set inp" by auto
    from Cons.prems(2) have dist: "distinct (map fst inp)" by simp
    from Cons.prems(1,7) entry False obtain found1 where
      rest: "evalInput h d b inp found1 = Inr found'"
      and none: "map_of found1 selector = None"
      by (auto simp: Let_def update_conv' split: option.splits sum.splits)
    from Cons.IH [OF rest dist mem Cons.prems(4,5,6) none] show ?thesis .
  qed
qed

text \<open>
  Claim C4. When the rule evaluator has run, an \<^verbatim>\<open>all\<close> input group whose
  \<^verbatim>\<open>querySelectorAll\<close> returned the root items holds in the extraction map exactly the
  fields declared for it, each one an array with as many elements as there are root
  items.
\<close>

theorem all_group_equal_length:
  assumes "evalInput h d baseURI inp [] = Inr found"
      and "distinct (map fst inp)"
      and "(selector, g) \<in> set inp"
      and "first g = None"
      and "all g = Some fm"
      and "docQuerySelectorAll d selector = Some rootItems"
  shows "\<exists>sub. map_of found selector = Some sub \<and> fst ` set sub = fst ` set fm
           \<and> (\<forall>k\<in>fst ` set fm. \<exists>arr. map_of sub k = Some (Many arr)
                                       \<and> length arr = length rootItems)"
  using evalInput_all_group [OF assms] by simp

theorem all_group_equal_length_witness:
  "evalInput testHost testDocument testUrl (input listRule) []
     = Inr [(''li.result'',
             [(''title'', Many [Str ''First'', Str ''Second'', Str ''Third'']),
              (''link'', Many [Str ''http://example.test/a'', Null, Null])])]
   \<and> distinct (map fst (input listRule))
   \<and> (''li.result'', listGroup) \<in> set (input listRule)
   \<and> first listGroup = None
   \<and> map_option (map fst) (all listGroup) = Some [''title'', ''link'']
   \<and> docQuerySelectorAll testDocument ''li.result'' = Some [4, 5, 6]
   \<and> (\<exists>sub. map_of [(''li.result'',
                       [(''title'', Many [Str ''First'', Str ''Second'', Str ''Third'']),
                        (''link'', Many [Str ''http://example.test/a'', Null, Null])])]
               ''li.result'' = Some sub
            \<and> fst ` set sub = {''title'', ''link''}
            \<and> (\<forall>k\<in>{''title'', ''link''}. \<exists>arr. map_of sub k = Some (Many arr) \<and> length arr = 3))"
  using all_group_equal_length [of testHost testDocument testUrl "input listRule"
          "[(''li.result'',
             [(''title'', Many [Str ''First'', Str ''Second'', Str ''Third'']),
              (''link'', Many [Str ''http://example.test/a'', Null, Null])])]"
          "''li.result''" listGroup
          "[(''title'', \<lparr>select = None, attr = ''title'', transform = None, firstMatch = None\<rparr>),
            (''link'', \<lparr>select = Some ''a'', attr = ''href'', transform = None, firstMatch = None\<rparr>)]"
          "[4, 5, 6]"]
  by (simp add: listRule_def listGroup_def testHost_def testDocument_def testUrl_def
        findFirstMatch_def runSelector_def runTransforms_def orEmpty_def Let_def)

section \<open>Properties of array-merged fields\<close>

lemma digit_value: "n < 10 \<Longrightarrow> (of_char (''0123456789'' ! n) :: nat) - 48 = n"
proof -
  assume "n < 10"
  then have "n \<in> {0, 1, 2, 3, 4, 5, 6, 7, 8, 9}" by auto
  then show ?thesis by auto
qed

lemma decodeKey_indexKey: "decodeKey (indexKey n) = n"
proof (induction n rule: indexKey.induct)
  case (1 n)
  show ?case
  proof (cases "n < 10")
    case True
    then have "indexKey n = [''0123456789'' ! n]" by (subst indexKey.simps) simp
    with True show ?thesis by (simp add: decodeKey_def digit_value)
  next
    case False
    with 1 have IH: "decodeKey (indexKey (n div 10)) = n div 10" by simp
    have "indexKey n = indexKey (n div 10) @ [''0123456789'' ! (n mod 10)]"
      using False by (subst indexKey.simps) simp
    then have "decodeKey (indexKey n)
                 = 10 * decodeKey (indexKey (n div 10)) + (of_char (''0123456789'' ! (n mod 10)) - 48)"
      by (simp add: decodeKey_def)
    also have "\<dots> = 10 * (n div 10) + n mod 10"
      using IH digit_value [of "n mod 10"] by simp
    finally show ?thesis by simp
  qed
qed

lemma indexKey_inj: "inj indexKey"
  by (rule inj_on_inverseI [where g = decodeKey]) (rule decodeKey_indexKey)

lemma spread_lookup: "i < length xs \<Longrightarrow> map_of (spread xs) (indexKey i) = Some (xs ! i)"
proof -
  assume i: "i < length xs"
  have d: "distinct (map indexKey [0..<length xs])"
    by (simp add: distinct_map inj_on_subset [OF indexKey_inj])
  from map_of_zip_nth [of "map indexKey [0..<length xs]" xs i] d i
  show ?thesis by (simp add: spread_def)
qed

lemma spread_keys: "map fst (spread xs) = map indexKey [0..<length xs]"
  by (simp add: spread_def)

lemma mergeColumn_length: "length (mergeColumn k vs rs) = max (length vs) (length rs)"
  by (induction k vs rs rule: mergeColumn.induct) auto

lemma mergeColumn_nth_key:
  "i < length vs \<Longrightarrow> map_of (mergeColumn k vs rs ! i) k = Some (orNull (vs ! i))"
proof (induction k vs rs arbitrary: i rule: mergeColumn.induct)
  case (1 innerKey results)
  then show ?case by simp
next
  case (2 innerKey v vs)
  then show ?case by (cases i) auto
next
  case (3 innerKey v vs r results)
  then show ?case by (cases i) (auto simp: update_conv')
qed

lemma mergeColumn_nth_other:
  "i < length rs \<Longrightarrow> k' \<noteq> k \<Longrightarrow> map_of (mergeColumn k vs rs ! i) k' = map_of (rs ! i) k'"
proof (induction k vs rs arbitrary: i rule: mergeColumn.induct)
  case (1 innerKey results)
  then show ?case by simp
next
  case (2 innerKey v vs)
  then show ?case by simp
next
  case (3 innerKey v vs r results)
  then show ?case by (cases i) (auto simp: update_conv')
qed

lemma mergeColumns_zip:
  assumes "\<forall>k\<in>set ks. \<exists>arr. map_of sub k = Some (Many arr) \<and> length arr = n"
      and "length rs = n \<or> (rs = [] \<and> K = {})"
      and "\<forall>i<length rs. \<forall>k\<in>K. \<forall>arr. map_of sub k = Some (Many arr)
             \<longrightarrow> map_of (rs ! i) k = Some (orNull (arr ! i))"
  shows "\<exists>results. mergeColumns (Some sub) ks rs = Inr results
           \<and> (ks \<noteq> [] \<longrightarrow> length results = n)
           \<and> (ks = [] \<longrightarrow> results = rs)
           \<and> (\<forall>i<length results. \<forall>k\<in>K \<union> set ks. \<forall>arr. map_of sub k = Some (Many arr)
                 \<longrightarrow> map_of (results ! i) k = Some (orNull (arr ! i)))"
  using assms
proof (induction ks arbitrary: rs K)
  case Nil
  then show ?case by simp
next
  case (Cons k ks)
  from Cons.prems(1) obtain arr where arr: "map_of sub k = Some (Many arr)" and len: "length arr = n"
    by auto
  let ?rs = "mergeColumn k arr rs"
  have len': "length ?rs = n"
    using Cons.prems(2) len by (auto simp: mergeColumn_length)
  have done': "\<forall>i<length ?rs. \<forall>k'\<in>insert k K. \<forall>arr'. map_of sub k' = Some (Many arr')
             \<longrightarrow> map_of (?rs ! i) k' = Some (orNull (arr' ! i))"
  proof (intro allI impI ballI)
    fix i k' arr'
    assume i: "i < length ?rs" and k': "k' \<in> insert k K" and a': "map_of sub k' = Some (Many arr')"
    show "map_of (?rs ! i) k' = Some (orNull (arr' ! i))"
    proof (cases "k' = k")
      case True
      with a' arr have "arr' = arr" by simp
      with True i len len' show ?thesis by (simp add: mergeColumn_nth_key)
    next
      case False
      with k' have inK: "k' \<in> K" by simp
      with Cons.prems(2) have "length rs = n" by auto
      with i len' have "i < length rs" by simp
      with False Cons.prems(3) inK a' show ?thesis by (simp add: mergeColumn_nth_other)
    qed
  qed
  have cols: "\<forall>k\<in>set ks. \<exists>arr. map_of sub k = Some (Many arr) \<and> length arr = n"
    using Cons.prems(1) by simp
  from Cons.IH [OF cols _ done'] len'
  obtain results where
    r1: "mergeColumns (Some sub) ks ?rs = Inr results"
    and r2: "ks \<noteq> [] \<longrightarrow> length results = n"
    and r3: "ks = [] \<longrightarrow> results = ?rs"
    and r4: "\<forall>i<length results. \<forall>k'\<in>insert k K \<union> set ks. \<forall>arr. map_of sub k' = Some (Many arr)
                 \<longrightarrow> map_of (results ! i) k' = Some (orNull (arr ! i))"
    by blast
  have "mergeColumns (Some sub) (k # ks) rs = Inr results" using arr r1 by simp
  moreover have "length results = n" using r2 r3 len' by (cases "ks = []") auto
  moreover have "\<forall>i<length results. \<forall>k'\<in>K \<union> set (k # ks). \<forall>arr. map_of sub k' = Some (Many arr)
                 \<longrightarrow> map_of (results ! i) k' = Some (orNull (arr ! i))"
    using r4 by simp
  ultimately show ?case by blast
qed

lemma entryAt_Some: "map_of e k = Some v \<Longrightarrow> entryAt e k = v"
  by (simp add: entryAt_def)

text \<open>
  Claim C5. Let a field of an output action refer to an \<^verbatim>\<open>all\<close> input group whose
  per-field arrays all have length \<open>n\<close>. The assembler zips them: entry \<open>i\<close> holds,
  at every field declared under the group, the \<open>i\<close>-th value of that field's array
  (\<^verbatim>\<open>undefined\<close> turned into \<^verbatim>\<open>null\<close>). It keeps the entries in which every required
  key is present, the required keys being \<^verbatim>\<open>requiredKeys\<close> when given and all fields
  declared under the group otherwise. If none is left and the field is not optional,
  the action is discarded; otherwise the field is assigned the object that maps the
  decimal index keys \<^verbatim>\<open>"0"\<close>, \<^verbatim>\<open>"1"\<close>, ... to the kept entries, in their order.
\<close>

theorem array_merged_field:
  assumes "truthy (source f)"
      and "map_of inp (the (source f)) = Some g"
      and "first g = None"
      and "all g = Some fm"
      and "map_of found (the (source f)) = Some sub"
      and "\<forall>k\<in>fst ` set fm. \<exists>arr. map_of sub k = Some (Many arr) \<and> length arr = n"
  shows "\<exists>results cleaned.
           mergeColumns (Some sub) (map fst fm) [] = Inr results
         \<and> (fm \<noteq> [] \<longrightarrow> length results = n)
         \<and> (\<forall>i<length results. \<forall>k\<in>fst ` set fm. \<forall>arr. map_of sub k = Some (Many arr)
               \<longrightarrow> entryAt (results ! i) k = orNull (arr ! i))
         \<and> cleaned = filter (\<lambda>entry. \<forall>x\<in>set (case requiredKeys f of None \<Rightarrow> map fst fm | Some r \<Rightarrow> r).
                                       isPresent (entryAt entry x)) results
         \<and> processFields inp found ctx (f # fs) p
             = (if cleaned = [] \<and> \<not> optional f then Inr None
                else processFields inp found ctx fs
                       (AList.update (key f) (Entries (spread cleaned)) p))
         \<and> map fst (spread cleaned) = map indexKey [0..<length cleaned]
         \<and> (\<forall>i<length cleaned. map_of (spread cleaned) (indexKey i) = Some (cleaned ! i))"
proof -
  have cols: "\<forall>k\<in>set (map fst fm). \<exists>arr. map_of sub k = Some (Many arr) \<and> length arr = n"
    using assms(6) by simp
  from mergeColumns_zip [OF cols, of "[]" "{}"]
  obtain results where
    r1: "mergeColumns (Some sub) (map fst fm) [] = Inr results"
    and r2: "map fst fm \<noteq> [] \<longrightarrow> length results = n"
    and r4: "\<forall>i<length results. \<forall>k\<in>{} \<union> set (map fst fm). \<forall>arr. map_of sub k = Some (Many arr)
                 \<longrightarrow> map_of (results ! i) k = Some (orNull (arr ! i))"
    by auto
  let ?required = "case requiredKeys f of None \<Rightarrow> map fst fm | Some r \<Rightarrow> r"
  let ?cleaned = "filter (\<lambda>entry. \<forall>x\<in>set ?required. isPresent (entryAt entry x)) results"
  have flt: "filter (allFieldsPresent ?required) results = ?cleaned"
    by (rule arg_cong [where f = "\<lambda>P. filter P results"])
       (simp add: fun_eq_iff allFieldsPresent_def list_all_iff)
  have step: "processFields inp found ctx (f # fs) p
             = (if ?cleaned = [] \<and> \<not> optional f then Inr None
                else processFields inp found ctx fs
                       (AList.update (key f) (Entries (spread ?cleaned)) p))"
    using assms(1-5) r1 flt by (simp add: Let_def)
  have zipped: "\<forall>i<length results. \<forall>k\<in>fst ` set fm. \<forall>arr. map_of sub k = Some (Many arr)
               \<longrightarrow> entryAt (results ! i) k = orNull (arr ! i)"
    using r4 by (auto intro!: entryAt_Some)
  have len: "fm \<noteq> [] \<longrightarrow> length results = n" using r2 by simp
  show ?thesis
    using r1 len zipped step spread_keys [of ?cleaned] spread_lookup [of _ ?cleaned]
    by blast
qed

theorem array_merged_field_witness:
  "truthy (source (listField None))
   \<and> map_of (input listRule) (the (source (listField None))) = Some listGroup
   \<and> first listGroup = None
   \<and> map_option (map fst) (all listGroup) = Some [''title'', ''link'']
   \<and> evalInput testHost testDocument testUrl (input listRule) [] = Inr [(''li.result'', listColumns)]
   \<and> (\<exists>a b. map_of listColumns ''title'' = Some (Many a) \<and> length a = 3
            \<and> map_of listColumns ''link'' = Some (Many b) \<and> length b = 3)
   \<and> mergeColumns (Some listColumns) [''title'', ''link''] []
       = Inr [[(''title'', Str ''First''), (''link'', Str ''http://example.test/a'')],
              [(''title'', Str ''Second''), (''link'', Null)],
              [(''title'', Str ''Third''), (''link'', Null)]]
   \<and> processFields (input listRule) [(''li.result'', listColumns)]
         (contextLookup testHost (Str ''some-query'') testUrl) [listField None] []
       = Inr (Some [(''r'', Entries
           [(''0'', [(''title'', Str ''First''), (''link'', Str ''http://example.test/a'')])])])
   \<and> processFields (input listRule) [(''li.result'', listColumns)]
         (contextLookup testHost (Str ''some-query'') testUrl) [listField (Some [''title''])] []
       = Inr (Some [(''r'', Entries
           [(''0'', [(''title'', Str ''First''), (''link'', Str ''http://example.test/a'')]),
            (''1'', [(''title'', Str ''Second''), (''link'', Null)]),
            (''2'', [(''title'', Str ''Third''), (''link'', Null)])])])"
  using array_merged_field [of "listField None" "input listRule" listGroup
          "[(''title'', \<lparr>select = None, attr = ''title'', transform = None, firstMatch = None\<rparr>),
            (''link'', \<lparr>select = Some ''a'', attr = ''href'', transform = None, firstMatch = None\<rparr>)]"
          "[(''li.result'', listColumns)]" listColumns 3
          "contextLookup testHost (Str ''some-query'') testUrl" "[]" "[]"]
  by (simp add: listRule_def listGroup_def listField_def listColumns_def testHost_def
        testDocument_def testUrl_def findFirstMatch_def runSelector_def runTransforms_def
        orEmpty_def Let_def allFieldsPresent_def entryAt_def isPresent_def spread_def
        indexKey.simps)

section \<open>Properties of unknown transforms\<close>























end
